theory Spec2Isabelle
  imports Main "HOL-Library.Multiset"
begin

section \<open>Data model of the notification application\<close>

text \<open>
  The Django models of \<^verbatim>\<open>notifications/models.py\<close>, \<^verbatim>\<open>users/models.py\<close> and
  \<^verbatim>\<open>posts/models.py\<close> as records. A \<^verbatim>\<open>DateTimeField\<close> is a natural number (a point
  on the clock), a \<^verbatim>\<open>TimeField\<close> is the number of microseconds since midnight, whose
  order is the order of \<^verbatim>\<open>datetime.time\<close>. A nullable column is an \<open>option\<close>.
  Model instances are compared by primary key, as Django's \<^verbatim>\<open>Model.__eq__\<close> does.
  JSON values carry integers only; floating point numbers are left out.
\<close>

type_synonym datetime = nat
type_synonym time_of_day = nat

definition hm :: "nat \<Rightarrow> nat \<Rightarrow> time_of_day" where
  "hm h m = (h * 60 + m) * 60 * 1000000"

datatype json =
    JNull
  | JBool bool
  | JInt int
  | JString string
  | JList "json list"
  | JDict "(string \<times> json) list"

datatype error = Http404 | AttributeError | TypeError | ValueError

record user =
  user_id :: nat
  username :: string
  is_active :: bool

definition same_user :: "user \<Rightarrow> user \<Rightarrow> bool" where
  "same_user a b = (user_id a = user_id b)"

record post =
  post_id :: nat
  post_author :: user
  post_content :: string

record comment =
  comment_id :: nat
  comment_author :: user
  comment_post :: post
  comment_content :: string

record like =
  like_user :: user
  like_post :: post

text \<open>
  \<^verbatim>\<open>class Notification\<close>. The column \<^verbatim>\<open>notification_type\<close> is a \<^verbatim>\<open>CharField\<close>: a
  string. Its \<^verbatim>\<open>choices\<close> are the list \<open>NOTIFICATION_TYPES\<close>. The generic foreign key
  is the pair of a content type name and an object id.
\<close>

record notification =
  nid :: nat
  recipient :: user
  sender :: "user option"
  notification_type :: string
  title :: string
  message :: string
  content_object :: "(string \<times> nat) option"
  data :: "(string \<times> json) list"
  is_read :: bool
  is_archived :: bool
  created_at :: datetime
  read_at :: "datetime option"

definition NOTIFICATION_TYPES :: "(string \<times> string) list" where
  "NOTIFICATION_TYPES =
     [(''follow'', ''Follow''), (''like'', ''Like''), (''comment'', ''Comment''),
      (''mention'', ''Mention''), (''system'', ''System'')]"

definition known_kind :: "string \<Rightarrow> bool" where
  "known_kind k = (k \<in> set (map fst NOTIFICATION_TYPES))"

text \<open>\<^verbatim>\<open>class NotificationPreference\<close>: the quiet hours columns and the fifteen flags.\<close>

record notification_preference =
  pref_user :: user
  email_follows :: bool
  email_likes :: bool
  email_comments :: bool
  email_mentions :: bool
  email_system :: bool
  push_follows :: bool
  push_likes :: bool
  push_comments :: bool
  push_mentions :: bool
  push_system :: bool
  in_app_follows :: bool
  in_app_likes :: bool
  in_app_comments :: bool
  in_app_mentions :: bool
  in_app_system :: bool
  quiet_hours_enabled :: bool
  quiet_hours_start :: "time_of_day option"
  quiet_hours_end :: "time_of_day option"

text \<open>
  \<^verbatim>\<open>NotificationPreference.is_quiet_hours\<close>. The source reads the clock
  (\<^verbatim>\<open>timezone.now().time()\<close>); here the reading is the argument \<open>current_time\<close>.
  A \<^verbatim>\<open>datetime.time\<close> is always truthy, so \<^verbatim>\<open>start and end\<close> tests that both are set.
\<close>

definition is_quiet_hours :: "notification_preference \<Rightarrow> time_of_day \<Rightarrow> bool" where
  "is_quiet_hours p current_time =
     (if \<not> quiet_hours_enabled p then False
      else case (quiet_hours_start p, quiet_hours_end p) of
             (Some s, Some e) \<Rightarrow>
               (if s \<le> e then s \<le> current_time \<and> current_time \<le> e
                else current_time \<ge> s \<or> current_time \<le> e)
           | _ \<Rightarrow> False)"


section \<open>The notification table and the channel layer\<close>

text \<open>
  The state the code works on. \<open>rows\<close> is the table \<^verbatim>\<open>notifications\<close> in insertion
  order, \<open>next_id\<close> the next value of its automatic primary key, \<open>writes\<close> the log of
  the statements that wrote to the table. \<open>groups\<close> is the group membership of the
  channel layer and \<open>sockets\<close> holds, for every channel name, the frames its consumer has
  sent to the client so far (the arguments of \<^verbatim>\<open>json.dumps\<close>, in order).
  The group name \<^verbatim>\<open>f"user_{id}"\<close> is the constructor \<open>UserGroup id\<close>.
\<close>

datatype field = IsRead | ReadAt | IsArchived

datatype db_write =
    Insert nat
  | Update nat "field list"
  | UpdateWhere nat "field list"
  | Delete nat

datatype group = UserGroup nat | BroadcastGroup

type_synonym channel = string

record world =
  rows :: "notification list"
  next_id :: nat
  writes :: "db_write list"
  groups :: "group \<Rightarrow> channel set"
  sockets :: "channel \<Rightarrow> json list"

subsection \<open>Model methods\<close>

text \<open>
  \<^verbatim>\<open>Model.save(update_fields=...)\<close>: one UPDATE of the named columns of the row with
  the instance's primary key, from the values the instance holds.
\<close>

fun copy_field :: "notification \<Rightarrow> field \<Rightarrow> notification \<Rightarrow> notification" where
  "copy_field obj IsRead r = r\<lparr>is_read := is_read obj\<rparr>"
| "copy_field obj ReadAt r = r\<lparr>read_at := read_at obj\<rparr>"
| "copy_field obj IsArchived r = r\<lparr>is_archived := is_archived obj\<rparr>"

definition save_update_fields :: "notification \<Rightarrow> field list \<Rightarrow> world \<Rightarrow> world" where
  "save_update_fields obj fs w =
     w\<lparr>rows := map (\<lambda>r. if nid r = nid obj then fold (copy_field obj) fs r else r) (rows w),
       writes := writes w @ [Update (nid obj) fs]\<rparr>"

text \<open>\<^verbatim>\<open>Notification.mark_as_read\<close>; \<open>now\<close> is the reading of \<^verbatim>\<open>timezone.now()\<close>.\<close>

definition mark_as_read :: "datetime \<Rightarrow> notification \<Rightarrow> world \<Rightarrow> notification \<times> world" where
  "mark_as_read now self w =
     (if \<not> is_read self then
        (let self' = self\<lparr>is_read := True, read_at := Some now\<rparr>
         in (self', save_update_fields self' [IsRead, ReadAt] w))
      else (self, w))"

text \<open>
  \<^verbatim>\<open>Notification.get_notification_text\<close>. \<^verbatim>\<open>self.sender.username\<close> raises
  \<^verbatim>\<open>AttributeError\<close> when the nullable \<^verbatim>\<open>sender\<close> is \<^verbatim>\<open>None\<close>.
\<close>

definition sender_username :: "notification \<Rightarrow> error + string" where
  "sender_username self =
     (case sender self of None \<Rightarrow> Inl AttributeError | Some u \<Rightarrow> Inr (username u))"

definition get_notification_text :: "notification \<Rightarrow> error + string" where
  "get_notification_text self =
     (if notification_type self = ''follow'' then
        map_sum id (\<lambda>u. u @ '' started following you'') (sender_username self)
      else if notification_type self = ''like'' then
        map_sum id (\<lambda>u. u @ '' liked your post'') (sender_username self)
      else if notification_type self = ''comment'' then
        map_sum id (\<lambda>u. u @ '' commented on your post'') (sender_username self)
      else if notification_type self = ''mention'' then
        map_sum id (\<lambda>u. u @ '' mentioned you in a comment'') (sender_username self)
      else if notification_type self = ''system'' then Inr (message self)
      else Inr (message self))"

subsection \<open>Serializer and dispatch\<close>

text \<open>
  \<^verbatim>\<open>NotificationListSerializer(notification).data\<close>: the dictionary of the fields of
  \<^verbatim>\<open>Meta.fields\<close>, in that order. The read-only field \<^verbatim>\<open>sender_username\<close> (source
  \<^verbatim>\<open>sender.username\<close>) is left out when there is no sender; an
  \<^verbatim>\<open>AttributeError\<close> raised inside the method \<^verbatim>\<open>get_notification_text\<close> leaves
  the serializer as a \<^verbatim>\<open>ValueError\<close>.
\<close>

definition NotificationListSerializer_data :: "notification \<Rightarrow> error + json" where
  "NotificationListSerializer_data n =
     (case get_notification_text n of
        Inl e \<Rightarrow> Inl ValueError
      | Inr text \<Rightarrow>
          Inr (JDict
            ([(''id'', JInt (int (nid n)))] @
             (case sender n of None \<Rightarrow> [] | Some u \<Rightarrow> [(''sender_username'', JString (username u))]) @
             [(''notification_type'', JString (notification_type n)),
              (''title'', JString (title n)),
              (''message'', JString (message n)),
              (''notification_text'', JString text),
              (''is_read'', JBool (is_read n)),
              (''is_archived'', JBool (is_archived n)),
              (''created_at'', JInt (int (created_at n)))])))"

text \<open>
  The two kinds of event the code hands to \<^verbatim>\<open>channel_layer.group_send\<close>, and the frame
  the consumer's handler of that name (\<^verbatim>\<open>notification_message\<close>,
  \<^verbatim>\<open>notification_update\<close>) sends for it.
\<close>

datatype channel_event =
    NotificationMessageEvent json
  | NotificationUpdateEvent nat json

fun event_frame :: "channel_event \<Rightarrow> json" where
  "event_frame (NotificationMessageEvent d) =
     JDict [(''type'', JString ''notification''), (''notification'', d)]"
| "event_frame (NotificationUpdateEvent i d) =
     JDict [(''type'', JString ''notification_update''), (''notification_id'', JInt (int i)),
            (''update_data'', d)]"

text \<open>
  \<^verbatim>\<open>group_send\<close> of the channel layer (the transport, outside the repository): every
  channel that is a member of the group handles the event, that is, sends its frame.
\<close>

definition group_send :: "group \<Rightarrow> channel_event \<Rightarrow> world \<Rightarrow> world" where
  "group_send g ev w =
     w\<lparr>sockets := (\<lambda>ch. if ch \<in> groups w g then sockets w ch @ [event_frame ev]
                          else sockets w ch)\<rparr>"

definition send_notification_to_user :: "nat \<Rightarrow> notification \<Rightarrow> world \<Rightarrow> error + world" where
  "send_notification_to_user uid n w =
     (case NotificationListSerializer_data n of
        Inl e \<Rightarrow> Inl e
      | Inr notification_data \<Rightarrow>
          Inr (group_send (UserGroup uid) (NotificationMessageEvent notification_data) w))"

definition send_notification_update_to_user :: "nat \<Rightarrow> nat \<Rightarrow> json \<Rightarrow> world \<Rightarrow> world" where
  "send_notification_update_to_user uid notification_id update_data w =
     group_send (UserGroup uid) (NotificationUpdateEvent notification_id update_data) w"

subsection \<open>Creation\<close>

text \<open>
  \<^verbatim>\<open>Notification.objects.create\<close>: one INSERT with the next primary key; the flags
  take their defaults, \<^verbatim>\<open>created_at\<close> the clock reading \<open>now\<close>. \<^verbatim>\<open>create\<close> calls
  \<^verbatim>\<open>save\<close>, which does not run the field validators, so \<^verbatim>\<open>choices\<close> is not looked at.
\<close>

definition objects_create ::
  "datetime \<Rightarrow> user \<Rightarrow> user option \<Rightarrow> string \<Rightarrow> string \<Rightarrow> string \<Rightarrow>
   (string \<times> nat) option \<Rightarrow> (string \<times> json) list \<Rightarrow> world \<Rightarrow> notification \<times> world" where
  "objects_create now rcp sndr kind ttl msg obj dat w =
     (let n = \<lparr>nid = next_id w, recipient = rcp, sender = sndr, notification_type = kind,
               title = ttl, message = msg, content_object = obj, data = dat,
               is_read = False, is_archived = False, created_at = now, read_at = None\<rparr>
      in (n, w\<lparr>rows := rows w @ [n], next_id := Suc (next_id w),
               writes := writes w @ [Insert (nid n)]\<rparr>))"

text \<open>
  \<^verbatim>\<open>Notification.create_notification\<close>. The result is the state after the call together
  with the returned notification or the exception that left the call; the row is written
  before the dispatch, so it is in the state in both cases.
\<close>

definition create_notification ::
  "datetime \<Rightarrow> user \<Rightarrow> user option \<Rightarrow> string \<Rightarrow> string \<Rightarrow> string \<Rightarrow>
   (string \<times> nat) option \<Rightarrow> (string \<times> json) list option \<Rightarrow> world \<Rightarrow>
   world \<times> (error + notification)" where
  "create_notification now rcp sndr kind ttl msg obj dat w =
     (let (n, w1) = objects_create now rcp sndr kind ttl msg obj
                      (case dat of None \<Rightarrow> [] | Some d \<Rightarrow> d) w
      in case send_notification_to_user (user_id rcp) n w1 of
           Inl e \<Rightarrow> (w1, Inl e)
         | Inr w2 \<Rightarrow> (w2, Inr n))"


section \<open>Views\<close>

text \<open>
  \<^verbatim>\<open>get_object_or_404(Notification, id=notification_id, recipient=request.user)\<close>.
  \<^verbatim>\<open>id\<close> is the primary key, so at most one row matches.
\<close>

definition get_object_or_404 :: "nat \<Rightarrow> user \<Rightarrow> world \<Rightarrow> error + notification" where
  "get_object_or_404 notification_id request_user w =
     (case filter (\<lambda>r. nid r = notification_id \<and> same_user (recipient r) request_user) (rows w) of
        [] \<Rightarrow> Inl Http404
      | r # _ \<Rightarrow> Inr r)"

definition NotificationMarkAsReadView_post ::
  "datetime \<Rightarrow> user \<Rightarrow> nat \<Rightarrow> world \<Rightarrow> error + world" where
  "NotificationMarkAsReadView_post now request_user notification_id w =
     (case get_object_or_404 notification_id request_user w of
        Inl e \<Rightarrow> Inl e
      | Inr n \<Rightarrow> Inr (snd (mark_as_read now n w)))"

text \<open>
  \<^verbatim>\<open>NotificationMarkAllAsReadView.post\<close>: the count of the unread rows of the user, then
  \<^verbatim>\<open>update(is_read=True)\<close> on that queryset, one UPDATE that sets the one column.
\<close>

definition NotificationMarkAllAsReadView_post :: "user \<Rightarrow> world \<Rightarrow> nat \<times> world" where
  "NotificationMarkAllAsReadView_post request_user w =
     (let unread = (\<lambda>r. same_user (recipient r) request_user \<and> \<not> is_read r);
          count = length (filter unread (rows w))
      in (count,
          w\<lparr>rows := map (\<lambda>r. if unread r then r\<lparr>is_read := True\<rparr> else r) (rows w),
            writes := writes w @ [UpdateWhere (user_id request_user) [IsRead]]\<rparr>))"

definition NotificationArchiveView_post :: "user \<Rightarrow> nat \<Rightarrow> world \<Rightarrow> error + world" where
  "NotificationArchiveView_post request_user notification_id w =
     (case get_object_or_404 notification_id request_user w of
        Inl e \<Rightarrow> Inl e
      | Inr n \<Rightarrow> Inr (save_update_fields (n\<lparr>is_archived := True\<rparr>) [IsArchived] w))"

definition NotificationUnarchiveView_post :: "user \<Rightarrow> nat \<Rightarrow> world \<Rightarrow> error + world" where
  "NotificationUnarchiveView_post request_user notification_id w =
     (case get_object_or_404 notification_id request_user w of
        Inl e \<Rightarrow> Inl e
      | Inr n \<Rightarrow> Inr (save_update_fields (n\<lparr>is_archived := False\<rparr>) [IsArchived] w))"

text \<open>\<^verbatim>\<open>NotificationStatsView.get\<close>: counts over the rows of the user.\<close>

record stats =
  total_notifications :: nat
  unread_count :: nat
  read_count :: nat
  archived_count :: nat
  follow_count :: nat
  like_count :: nat
  comment_count :: nat
  mention_count :: nat
  system_count :: nat

definition NotificationStatsView_get :: "user \<Rightarrow> world \<Rightarrow> stats" where
  "NotificationStatsView_get request_user w =
     (let notifications = filter (\<lambda>r. same_user (recipient r) request_user) (rows w)
      in \<lparr>total_notifications = length notifications,
          unread_count = length (filter (\<lambda>r. is_read r = False) notifications),
          read_count = length (filter (\<lambda>r. is_read r = True) notifications),
          archived_count = length (filter (\<lambda>r. is_archived r = True) notifications),
          follow_count = length (filter (\<lambda>r. notification_type r = ''follow'') notifications),
          like_count = length (filter (\<lambda>r. notification_type r = ''like'') notifications),
          comment_count = length (filter (\<lambda>r. notification_type r = ''comment'') notifications),
          mention_count = length (filter (\<lambda>r. notification_type r = ''mention'') notifications),
          system_count = length (filter (\<lambda>r. notification_type r = ''system'') notifications)\<rparr>)"

text \<open>
  \<^verbatim>\<open>NotificationListView.get_queryset\<close> with its three optional query parameters: the
  rows the filters keep. \<open>lower\<close> is \<^verbatim>\<open>str.lower\<close> on a text of code points below
  256 (a \<open>char\<close> read as a Latin-1 code point).
\<close>

definition lower :: "string \<Rightarrow> string" where
  "lower s = map (\<lambda>c. let n = (of_char c :: nat)
                       in if (65 \<le> n \<and> n \<le> 90) \<or> (192 \<le> n \<and> n \<le> 214) \<or> (216 \<le> n \<and> n \<le> 222)
                          then char_of (n + 32) else c) s"

definition NotificationListView_get_queryset ::
  "user \<Rightarrow> string option \<Rightarrow> string option \<Rightarrow> string option \<Rightarrow> world \<Rightarrow> notification list" where
  "NotificationListView_get_queryset request_user q_is_read q_type q_is_archived w =
     (let queryset = filter (\<lambda>r. same_user (recipient r) request_user) (rows w);
          queryset = (case q_is_read of
                        None \<Rightarrow> queryset
                      | Some v \<Rightarrow> filter (\<lambda>r. is_read r = (lower v = ''true'')) queryset);
          queryset = (case q_type of
                        None \<Rightarrow> queryset
                      | Some t \<Rightarrow> if t \<noteq> [] then filter (\<lambda>r. notification_type r = t) queryset
                                  else queryset);
          queryset = (case q_is_archived of
                        None \<Rightarrow> queryset
                      | Some v \<Rightarrow> filter (\<lambda>r. is_archived r = (lower v = ''true'')) queryset)
      in queryset)"

text \<open>
  The model's default ordering \<^verbatim>\<open>ordering = ['-created_at']\<close>: the response lists the
  rows of the queryset by descending \<^verbatim>\<open>created_at\<close>. The order of rows with the same
  \<^verbatim>\<open>created_at\<close> is left to the database, so every list of the rows that descends in
  \<^verbatim>\<open>created_at\<close> is a possible response.
\<close>

definition ordered_by_created_desc :: "notification list \<Rightarrow> notification list \<Rightarrow> bool" where
  "ordered_by_created_desc queryset result =
     (mset result = mset queryset \<and> sorted_wrt (\<lambda>a b. created_at a \<ge> created_at b) result)"

section \<open>Signal receivers\<close>

text \<open>
  The excerpt \<^verbatim>\<open>s[:50] + '...' if len(s) > 50 else s\<close>, and the receivers of
  \<^verbatim>\<open>notifications/signals.py\<close>. A receiver returns the state it leaves and, when an
  exception left it, that exception.
\<close>

definition excerpt :: "string \<Rightarrow> string" where
  "excerpt s = (if length s > 50 then take 50 s @ ''...'' else s)"

definition finished :: "world \<times> (error + notification) \<Rightarrow> world \<times> (error + unit)" where
  "finished r = (fst r, map_sum id (\<lambda>_. ()) (snd r))"

record follow =
  follower :: user
  following :: user

definition create_follow_notification :: "datetime \<Rightarrow> follow \<Rightarrow> bool \<Rightarrow> world \<Rightarrow> world \<times> (error + unit)" where
  "create_follow_notification now instance created w =
     (if created then
        (if \<not> same_user (follower instance) (following instance) then
           finished (create_notification now (following instance) (Some (follower instance))
             ''follow'' ''New Follower'' (username (follower instance) @ '' started following you'')
             None
             (Some [(''follower_id'', JInt (int (user_id (follower instance)))),
                    (''follower_username'', JString (username (follower instance)))]) w)
         else (w, Inr ()))
      else (w, Inr ()))"

definition create_like_notification :: "datetime \<Rightarrow> like \<Rightarrow> bool \<Rightarrow> world \<Rightarrow> world \<times> (error + unit)" where
  "create_like_notification now instance created w =
     (if created then
        (if \<not> same_user (like_user instance) (post_author (like_post instance)) then
           finished (create_notification now (post_author (like_post instance)) (Some (like_user instance))
             ''like'' ''New Like'' (username (like_user instance) @ '' liked your post'')
             (Some (''post'', post_id (like_post instance)))
             (Some [(''post_id'', JInt (int (post_id (like_post instance)))),
                    (''post_content'', JString (excerpt (post_content (like_post instance))))]) w)
         else (w, Inr ()))
      else (w, Inr ()))"

definition create_comment_notification :: "datetime \<Rightarrow> comment \<Rightarrow> bool \<Rightarrow> world \<Rightarrow> world \<times> (error + unit)" where
  "create_comment_notification now instance created w =
     (if created then
        (if \<not> same_user (comment_author instance) (post_author (comment_post instance)) then
           finished (create_notification now (post_author (comment_post instance))
             (Some (comment_author instance))
             ''comment'' ''New Comment'' (username (comment_author instance) @ '' commented on your post'')
             (Some (''post'', post_id (comment_post instance)))
             (Some [(''post_id'', JInt (int (post_id (comment_post instance)))),
                    (''comment_id'', JInt (int (comment_id instance))),
                    (''comment_content'', JString (excerpt (comment_content instance))),
                    (''post_content'', JString (excerpt (post_content (comment_post instance))))]) w)
         else (w, Inr ()))
      else (w, Inr ()))"


subsection \<open>Mentions\<close>

text \<open>
  \<^verbatim>\<open>re.findall(r'@(\w+)', content)\<close>: the matches from left to right, without overlap,
  each the longest run of word characters after an \<^verbatim>\<open>@\<close>; the result lists the runs,
  repetitions included. The pattern is a \<^verbatim>\<open>str\<close> pattern without flags, so \<^verbatim>\<open>\w\<close>
  is Unicode-aware: which characters it accepts is decided by the Unicode tables of the
  Python library, outside the repository, and is the parameter \<open>word\<close> here. A
  \<open>char\<close> of the text stands for one character of the Python string.
\<close>

function findall_mentions :: "(char \<Rightarrow> bool) \<Rightarrow> string \<Rightarrow> string list" where
  "findall_mentions word [] = []"
| "findall_mentions word (c # cs) =
     (if c = CHR ''@'' \<and> takeWhile word cs \<noteq> []
      then takeWhile word cs # findall_mentions word (dropWhile word cs)
      else findall_mentions word cs)"
  by pat_completeness auto
termination
  by (relation "measure (\<lambda>(word, s). length s)") (auto simp: length_dropWhile_le less_Suc_eq_le)

text \<open>
  The table of \<^verbatim>\<open>\w\<close> on the code points below 256, a \<open>char\<close> read as a Latin-1
  code point: the digits, the letters, the underscore and the alphanumeric characters of
  the upper half (among them the accented letters).
\<close>

definition is_word_char :: "char \<Rightarrow> bool" where
  "is_word_char c =
     (let n = (of_char c :: nat)
      in (48 \<le> n \<and> n \<le> 57) \<or> (65 \<le> n \<and> n \<le> 90) \<or> n = 95 \<or> (97 \<le> n \<and> n \<le> 122)
         \<or> n = 170 \<or> n = 178 \<or> n = 179 \<or> n = 181 \<or> n = 185 \<or> n = 186
         \<or> (188 \<le> n \<and> n \<le> 190) \<or> (192 \<le> n \<and> n \<le> 214) \<or> (216 \<le> n \<and> n \<le> 246)
         \<or> (248 \<le> n \<and> n \<le> 255))"

text \<open>
  The user table by username, which is \<^verbatim>\<open>unique=True\<close>.
  \<^verbatim>\<open>User.objects.get(username=username, is_active=True)\<close> gives the user or raises
  \<^verbatim>\<open>User.DoesNotExist\<close>, here \<open>None\<close>.
\<close>

type_synonym user_table = "string \<Rightarrow> user option"

definition User_objects_get :: "user_table \<Rightarrow> string \<Rightarrow> user option" where
  "User_objects_get users name =
     (case users name of
        None \<Rightarrow> None
      | Some u \<Rightarrow> if is_active u then Some u else None)"

text \<open>
  The loop of \<^verbatim>\<open>create_mention_notifications\<close> over the matches. \<^verbatim>\<open>DoesNotExist\<close>
  is caught and the name skipped; any other exception leaves the loop.
\<close>

fun mention_loop ::
  "datetime \<Rightarrow> user_table \<Rightarrow> comment \<Rightarrow> string list \<Rightarrow> world \<Rightarrow> world \<times> (error + unit)" where
  "mention_loop now users instance [] w = (w, Inr ())"
| "mention_loop now users instance (name # mentions) w =
     (case User_objects_get users name of
        None \<Rightarrow> mention_loop now users instance mentions w
      | Some mentioned_user \<Rightarrow>
          if \<not> same_user mentioned_user (comment_author instance) then
            if \<not> same_user mentioned_user (post_author (comment_post instance)) then
              (case create_notification now mentioned_user (Some (comment_author instance))
                      ''mention'' ''Mentioned in Comment''
                      (username (comment_author instance) @ '' mentioned you in a comment'')
                      (Some (''post'', post_id (comment_post instance)))
                      (Some [(''post_id'', JInt (int (post_id (comment_post instance)))),
                             (''comment_id'', JInt (int (comment_id instance))),
                             (''comment_content'', JString (excerpt (comment_content instance)))]) w of
                 (w1, Inl e) \<Rightarrow> (w1, Inl e)
               | (w1, Inr _) \<Rightarrow> mention_loop now users instance mentions w1)
            else mention_loop now users instance mentions w
          else mention_loop now users instance mentions w)"

definition create_mention_notifications ::
  "(char \<Rightarrow> bool) \<Rightarrow> datetime \<Rightarrow> user_table \<Rightarrow> comment \<Rightarrow> bool \<Rightarrow> world \<Rightarrow>
   world \<times> (error + unit)" where
  "create_mention_notifications word now users instance created w =
     (if created
      then mention_loop now users instance (findall_mentions word (comment_content instance)) w
      else (w, Inr ()))"

section \<open>The WebSocket consumer\<close>

text \<open>
  \<^verbatim>\<open>class NotificationConsumer\<close>. \<open>consumer_user\<close> is \<^verbatim>\<open>self.scope["user"]\<close>,
  \<open>conn_state\<close> follows the calls \<^verbatim>\<open>accept\<close> and \<^verbatim>\<open>close\<close> on the transport, and
  \<^verbatim>\<open>self.send\<close> appends a frame to the socket of the consumer's channel.
\<close>

datatype scope_user = AnonymousUser | AuthUser user

datatype conn_state = Connecting | Open | Closed

record consumer =
  consumer_user :: scope_user
  channel_name :: channel
  user_group_name :: "group option"
  conn_state :: conn_state

definition send :: "consumer \<Rightarrow> json \<Rightarrow> world \<Rightarrow> world" where
  "send self frame w =
     w\<lparr>sockets := (sockets w)(channel_name self := sockets w (channel_name self) @ [frame])\<rparr>"

definition group_add :: "group \<Rightarrow> channel \<Rightarrow> world \<Rightarrow> world" where
  "group_add g ch w = w\<lparr>groups := (groups w)(g := insert ch (groups w g))\<rparr>"

definition group_discard :: "group \<Rightarrow> channel \<Rightarrow> world \<Rightarrow> world" where
  "group_discard g ch w = w\<lparr>groups := (groups w)(g := groups w g - {ch})\<rparr>"

definition connect :: "consumer \<Rightarrow> world \<Rightarrow> consumer \<times> world" where
  "connect self w =
     (case consumer_user self of
        AnonymousUser \<Rightarrow> (self\<lparr>conn_state := Closed\<rparr>, w)
      | AuthUser u \<Rightarrow>
          (let self1 = self\<lparr>user_group_name := Some (UserGroup (user_id u))\<rparr>;
               w1 = group_add (UserGroup (user_id u)) (channel_name self1) w;
               self2 = self1\<lparr>conn_state := Open\<rparr>;
               w2 = send self2
                      (JDict [(''type'', JString ''connection_established''),
                              (''message'', JString ''Connected to notifications''),
                              (''user_id'', JInt (int (user_id u)))]) w1
           in (self2, w2)))"

definition disconnect :: "consumer \<Rightarrow> world \<Rightarrow> error + world" where
  "disconnect self w =
     (case user_group_name self of
        None \<Rightarrow> Inl AttributeError
      | Some g \<Rightarrow> Inr (group_discard g (channel_name self) w))"

text \<open>
  \<^verbatim>\<open>get_unread_count\<close>: the rows of \<^verbatim>\<open>self.user\<close> with \<^verbatim>\<open>is_read=False\<close>. A filter on
  the anonymous user is a \<^verbatim>\<open>TypeError\<close>.
\<close>

definition get_unread_count :: "consumer \<Rightarrow> world \<Rightarrow> error + nat" where
  "get_unread_count self w =
     (case consumer_user self of
        AnonymousUser \<Rightarrow> Inl TypeError
      | AuthUser u \<Rightarrow>
          Inr (length (filter (\<lambda>r. same_user (recipient r) u \<and> is_read r = False) (rows w))))"

text \<open>
  \<^verbatim>\<open>dict.get\<close> on a parsed JSON object: the value, or \<^verbatim>\<open>None\<close> (JSON \<^verbatim>\<open>null\<close>).
\<close>

definition dict_get :: "(string \<times> json) list \<Rightarrow> string \<Rightarrow> json" where
  "dict_get kv k = (case map_of kv k of None \<Rightarrow> JNull | Some v \<Rightarrow> v)"

text \<open>
  \<^verbatim>\<open>NotificationConsumer.receive\<close>. \<open>loads\<close> is \<^verbatim>\<open>json.loads\<close> (the standard library's
  parser): \<open>None\<close> when it raises \<^verbatim>\<open>JSONDecodeError\<close>, the one exception the handler
  catches. On a parsed value that is not an object, \<^verbatim>\<open>.get\<close> raises
  \<^verbatim>\<open>AttributeError\<close>, which leaves the handler.
\<close>

definition receive :: "(string \<Rightarrow> json option) \<Rightarrow> consumer \<Rightarrow> string \<Rightarrow> world \<Rightarrow> error + world" where
  "receive loads self text_data w =
     (case loads text_data of
        None \<Rightarrow>
          Inr (send self (JDict [(''type'', JString ''error''),
                                 (''message'', JString ''Invalid JSON format'')]) w)
      | Some (JDict text_data_json) \<Rightarrow>
          (let message_type = dict_get text_data_json ''type'' in
           if message_type = JString ''ping'' then
             Inr (send self (JDict [(''type'', JString ''pong''),
                                    (''timestamp'', dict_get text_data_json ''timestamp'')]) w)
           else if message_type = JString ''get_notifications'' then
             (case get_unread_count self w of
                Inl e \<Rightarrow> Inl e
              | Inr unread \<Rightarrow>
                  Inr (send self (JDict [(''type'', JString ''notifications_count''),
                                         (''unread_count'', JInt (int unread))]) w))
           else Inr w)
      | Some _ \<Rightarrow> Inl AttributeError)"

definition notification_message :: "consumer \<Rightarrow> json \<Rightarrow> world \<Rightarrow> world" where
  "notification_message self d w = send self (event_frame (NotificationMessageEvent d)) w"

definition notification_update :: "consumer \<Rightarrow> nat \<Rightarrow> json \<Rightarrow> world \<Rightarrow> world" where
  "notification_update self i d w = send self (event_frame (NotificationUpdateEvent i d)) w"

text \<open>
  What reaches an open consumer: a text frame of the client, or an event of the channel
  layer, which goes to the handler named by its type. \<open>run\<close> handles them in arrival
  order and stops at the first exception.
\<close>

datatype inbound = ClientText string | LayerEvent channel_event

fun handle :: "(string \<Rightarrow> json option) \<Rightarrow> consumer \<Rightarrow> inbound \<Rightarrow> world \<Rightarrow> error + world" where
  "handle loads self (ClientText t) w = receive loads self t w"
| "handle loads self (LayerEvent (NotificationMessageEvent d)) w = Inr (notification_message self d w)"
| "handle loads self (LayerEvent (NotificationUpdateEvent i d)) w = Inr (notification_update self i d w)"

fun run :: "(string \<Rightarrow> json option) \<Rightarrow> consumer \<Rightarrow> inbound list \<Rightarrow> world \<Rightarrow> error + world" where
  "run loads self [] w = Inr w"
| "run loads self (x # xs) w =
     (case handle loads self x w of Inl e \<Rightarrow> Inl e | Inr w1 \<Rightarrow> run loads self xs w1)"

text \<open>The type of a frame, and an empty state for examples.\<close>

definition frame_type :: "json \<Rightarrow> json" where
  "frame_type f = (case f of JDict kv \<Rightarrow> dict_get kv ''type'' | _ \<Rightarrow> JNull)"

definition empty_world :: world where
  "empty_world = \<lparr>rows = [], next_id = 1, writes = [], groups = (\<lambda>_. {}), sockets = (\<lambda>_. [])\<rparr>"


section \<open>Example data\<close>

definition alice :: user where
  "alice = \<lparr>user_id = 1, username = ''alice'', is_active = True\<rparr>"

definition bob :: user where
  "bob = \<lparr>user_id = 2, username = ''bob'', is_active = True\<rparr>"

definition carol :: user where
  "carol = \<lparr>user_id = 3, username = ''carol'', is_active = True\<rparr>"

definition night_pref :: notification_preference where
  "night_pref = \<lparr>pref_user = alice,
     email_follows = True, email_likes = True, email_comments = True,
     email_mentions = True, email_system = True,
     push_follows = True, push_likes = True, push_comments = True,
     push_mentions = True, push_system = True,
     in_app_follows = True, in_app_likes = True, in_app_comments = True,
     in_app_mentions = True, in_app_system = True,
     quiet_hours_enabled = True, quiet_hours_start = Some (hm 22 0),
     quiet_hours_end = Some (hm 6 0)\<rparr>"

definition like_row :: notification where
  "like_row = \<lparr>nid = 1, recipient = alice, sender = Some bob, notification_type = ''like'',
                title = ''New Like'', message = ''bob liked your post'',
                content_object = Some (''post'', 7), data = [],
                is_read = False, is_archived = False, created_at = 100, read_at = None\<rparr>"

definition inbox_world :: world where
  "inbox_world = empty_world\<lparr>rows := [like_row], next_id := 2, writes := [Insert 1]\<rparr>"

definition alice_consumer :: consumer where
  "alice_consumer = \<lparr>consumer_user = AuthUser alice, channel_name = ''chan.a1'',
                      user_group_name = None, conn_state = Connecting\<rparr>"

definition bogus_row :: notification where
  "bogus_row = \<lparr>nid = 1, recipient = alice, sender = Some bob, notification_type = ''bogus'',
                 title = ''T'', message = ''M'', content_object = None, data = [],
                 is_read = False, is_archived = False, created_at = 100, read_at = None\<rparr>"

definition online_world :: world where
  "online_world =
     empty_world\<lparr>groups := (\<lambda>g. if g = UserGroup 1 then {''chan.a1'', ''chan.a2''}
                                else if g = UserGroup 2 then {''chan.b1''} else {})\<rparr>"

definition like_frame :: json where
  "like_frame =
     JDict [(''type'', JString ''notification''),
            (''notification'',
             JDict [(''id'', JInt 1), (''sender_username'', JString ''bob''),
                    (''notification_type'', JString ''like''), (''title'', JString ''New Like''),
                    (''message'', JString ''bob liked your post''),
                    (''notification_text'', JString ''bob liked your post''),
                    (''is_read'', JBool False), (''is_archived'', JBool False),
                    (''created_at'', JInt 100)])]"

definition archived_world :: world where
  "archived_world = inbox_world\<lparr>rows := [like_row\<lparr>is_archived := True\<rparr>],
                                  writes := [Insert 1, Update 1 [IsArchived]]\<rparr>"

definition directory :: user_table where
  "directory = [''alice'' \<mapsto> alice, ''bob'' \<mapsto> bob, ''carol'' \<mapsto> carol,
                ''dave'' \<mapsto> \<lparr>user_id = 4, username = ''dave'', is_active = False\<rparr>]"

definition carol_post :: post where
  "carol_post = \<lparr>post_id = 7, post_author = carol, post_content = ''my first post''\<rparr>"



definition accent_comment :: comment where
  "accent_comment = \<lparr>comment_id = 14, comment_author = alice, comment_post = carol_post,
                      comment_content = ''@bob'' @ [CHR 0xE9]\<rparr>"

definition own_like :: like where
  "own_like = \<lparr>like_user = carol, like_post = carol_post\<rparr>"

definition own_comment :: comment where
  "own_comment = \<lparr>comment_id = 13, comment_author = carol, comment_post = carol_post,
                   comment_content = ''thanks all, signed @carol''\<rparr>"

text \<open>
  The acknowledgement frame of \<open>connect\<close>, two consumers, a part of \<^verbatim>\<open>json.loads\<close>
  (its value on the payloads of the examples, every other text of the examples not being
  JSON) and a sequence of arrivals.
\<close>

definition established :: "user \<Rightarrow> json" where
  "established u = JDict [(''type'', JString ''connection_established''),
                          (''message'', JString ''Connected to notifications''),
                          (''user_id'', JInt (int (user_id u)))]"

definition example_loads :: "string \<Rightarrow> json option" where
  "example_loads s =
     (if s = ''5'' then Some (JInt 5)
      else if s = ''{\"type\": \"ping\", \"timestamp\": 7}'' then
        Some (JDict [(''type'', JString ''ping''), (''timestamp'', JInt 7)])
      else if s = ''{\"type\": \"get_notifications\"}'' then
        Some (JDict [(''type'', JString ''get_notifications'')])
      else if s = ''{\"type\": \"subscribe\"}'' then
        Some (JDict [(''type'', JString ''subscribe'')])
      else None)"

definition anon_consumer :: consumer where
  "anon_consumer = \<lparr>consumer_user = AnonymousUser, channel_name = ''chan.x9'',
                     user_group_name = None, conn_state = Connecting\<rparr>"

definition session :: "inbound list" where
  "session = [ClientText ''{\"type\": \"ping\", \"timestamp\": 7}'',
              ClientText ''{\"type\": \"subscribe\"}'',
              LayerEvent (NotificationMessageEvent (JDict [(''id'', JInt 1)])),
              ClientText ''{\"type\": \"get_notifications\"}'',
              ClientText ''{not json'']"

section \<open>Quiet hours\<close>

text \<open>
  C5. \<open>is_quiet_hours\<close> is false when quiet hours are disabled or a bound is unset.
  With both bounds set and quiet hours enabled, a window with start at most end holds
  exactly the times from start to end, and a window with start after end (it wraps
  midnight) exactly the times from start on or up to end. From 22:00 to 06:00 the times
  23:00 and 03:00 are inside and 12:00 is outside.
\<close>

theorem is_quiet_hours_window:
  "(\<not> quiet_hours_enabled p \<or> quiet_hours_start p = None \<or> quiet_hours_end p = None
      \<longrightarrow> \<not> is_quiet_hours p now)
   \<and> (quiet_hours_enabled p \<and> quiet_hours_start p = Some s \<and> quiet_hours_end p = Some e \<longrightarrow>
        (s \<le> e \<longrightarrow> is_quiet_hours p now = (s \<le> now \<and> now \<le> e)) \<and>
        (s > e \<longrightarrow> is_quiet_hours p now = (now \<ge> s \<or> now \<le> e)))
   \<and> (quiet_hours_enabled p \<and> quiet_hours_start p = Some (hm 22 0)
        \<and> quiet_hours_end p = Some (hm 6 0) \<longrightarrow>
        is_quiet_hours p (hm 23 0) \<and> is_quiet_hours p (hm 3 0) \<and> \<not> is_quiet_hours p (hm 12 0))"
  by (auto simp: is_quiet_hours_def hm_def split: option.splits)

theorem is_quiet_hours_window_witness:
  "quiet_hours_enabled night_pref \<and> quiet_hours_start night_pref = Some (hm 22 0)
   \<and> quiet_hours_end night_pref = Some (hm 6 0) \<and> hm 22 0 > hm 6 0
   \<and> is_quiet_hours night_pref (hm 23 0) \<and> is_quiet_hours night_pref (hm 3 0)
   \<and> \<not> is_quiet_hours night_pref (hm 12 0)
   \<and> \<not> quiet_hours_enabled (night_pref\<lparr>quiet_hours_enabled := False\<rparr>)
   \<and> \<not> is_quiet_hours (night_pref\<lparr>quiet_hours_enabled := False\<rparr>) (hm 23 0)
   \<and> is_quiet_hours (night_pref\<lparr>quiet_hours_start := Some (hm 9 0),
                                 quiet_hours_end := Some (hm 17 0)\<rparr>) (hm 12 0)"
  using is_quiet_hours_window [of night_pref "hm 23 0" "hm 22 0" "hm 6 0"]
        is_quiet_hours_window [of "night_pref\<lparr>quiet_hours_enabled := False\<rparr>" "hm 23 0"
                                  "hm 22 0" "hm 6 0"]
        is_quiet_hours_window [of "night_pref\<lparr>quiet_hours_start := Some (hm 9 0),
                                              quiet_hours_end := Some (hm 17 0)\<rparr>"
                                  "hm 12 0" "hm 9 0" "hm 17 0"]
  by (simp add: night_pref_def hm_def)

section \<open>Lemmas about the table, the serializer and the channel layer\<close>

lemma get_object_or_404_found:
  assumes "get_object_or_404 i u w = Inr n"
  shows "n \<in> set (rows w) \<and> nid n = i \<and> same_user (recipient n) u"
proof -
  let ?P = "\<lambda>r. nid r = i \<and> same_user (recipient r) u"
  from assms obtain rest where "filter ?P (rows w) = n # rest"
    by (auto simp: get_object_or_404_def split: list.splits)
  then have "n \<in> set (filter ?P (rows w))" by simp
  then show ?thesis by simp
qed

lemma get_object_or_404_map:
  assumes "\<And>r. nid (f r) = nid r" and "\<And>r. recipient (f r) = recipient r"
  shows "get_object_or_404 i u (w\<lparr>rows := map f (rows w), writes := ws\<rparr>)
         = map_sum id f (get_object_or_404 i u w)"
proof -
  have "filter (\<lambda>r. nid r = i \<and> same_user (recipient r) u) (map f (rows w))
        = map f (filter (\<lambda>r. nid r = i \<and> same_user (recipient r) u) (rows w))"
    by (simp add: filter_map o_def assms)
  then show ?thesis
    by (simp add: get_object_or_404_def split: list.splits)
qed

lemma save_read_fields:
  "save_update_fields obj [IsRead, ReadAt] w =
     w\<lparr>rows := map (\<lambda>r. if nid r = nid obj then r\<lparr>is_read := is_read obj, read_at := read_at obj\<rparr>
                          else r) (rows w),
       writes := writes w @ [Update (nid obj) [IsRead, ReadAt]]\<rparr>"
  by (simp add: save_update_fields_def cong: if_cong)

lemma save_archived_field:
  "save_update_fields obj [IsArchived] w =
     w\<lparr>rows := map (\<lambda>r. if nid r = nid obj then r\<lparr>is_archived := is_archived obj\<rparr> else r) (rows w),
       writes := writes w @ [Update (nid obj) [IsArchived]]\<rparr>"
  by (simp add: save_update_fields_def cong: if_cong)

lemma unread_rows_map:
  assumes "\<And>r. recipient (f r) = recipient r" and "\<And>r. is_read (f r) = is_read r"
  shows "get_unread_count c (w\<lparr>rows := map f (rows w), writes := ws\<rparr>) = get_unread_count c w"
    and "unread_count (NotificationStatsView_get v (w\<lparr>rows := map f (rows w), writes := ws\<rparr>))
         = unread_count (NotificationStatsView_get v w)"
  by (simp_all add: get_unread_count_def NotificationStatsView_get_def filter_map o_def assms
               split: scope_user.splits)

lemma archive_result:
  assumes "NotificationArchiveView_post u i w = Inr w' \<or> NotificationUnarchiveView_post u i w = Inr w'"
  shows "\<exists>b. w' = w\<lparr>rows := map (\<lambda>r. if nid r = i then r\<lparr>is_archived := b\<rparr> else r) (rows w),
                     writes := writes w @ [Update i [IsArchived]]\<rparr>"
proof -
  from assms obtain n where n: "get_object_or_404 i u w = Inr n"
    by (auto simp: NotificationArchiveView_post_def NotificationUnarchiveView_post_def
             split: sum.splits)
  then have "nid n = i" using get_object_or_404_found by blast
  with assms n show ?thesis
    by (auto simp: NotificationArchiveView_post_def NotificationUnarchiveView_post_def
                   save_archived_field cong: if_cong)
qed

lemma get_notification_text_defined:
  assumes "sender n \<noteq> None \<or> notification_type n \<notin> {''follow'', ''like'', ''comment'', ''mention''}"
  shows "\<exists>t. get_notification_text n = Inr t"
  using assms by (cases "sender n") (auto simp: get_notification_text_def sender_username_def)

lemma serializer_defined:
  assumes "get_notification_text n = Inr t"
  shows "NotificationListSerializer_data n =
     Inr (JDict ([(''id'', JInt (int (nid n)))] @
             (case sender n of None \<Rightarrow> [] | Some u \<Rightarrow> [(''sender_username'', JString (username u))]) @
             [(''notification_type'', JString (notification_type n)),
              (''title'', JString (title n)),
              (''message'', JString (message n)),
              (''notification_text'', JString t),
              (''is_read'', JBool (is_read n)),
              (''is_archived'', JBool (is_archived n)),
              (''created_at'', JInt (int (created_at n)))]))"
  using assms by (simp add: NotificationListSerializer_data_def)

lemma group_send_frame:
  "rows (group_send g ev w) = rows w" "writes (group_send g ev w) = writes w"
  "next_id (group_send g ev w) = next_id w" "groups (group_send g ev w) = groups w"
  "sockets (group_send g ev w) ch = (if ch \<in> groups w g then sockets w ch @ [event_frame ev] else sockets w ch)"
  by (simp_all add: group_send_def)

lemma group_send_nobody: "groups w g = {} \<Longrightarrow> group_send g ev w = w"
  by (simp add: group_send_def)

lemma create_notification_unfold:
  "create_notification now rcp sndr kind ttl msg obj dat w =
     (let n = \<lparr>nid = next_id w, recipient = rcp, sender = sndr, notification_type = kind,
               title = ttl, message = msg, content_object = obj,
               data = (case dat of None \<Rightarrow> [] | Some d \<Rightarrow> d),
               is_read = False, is_archived = False, created_at = now, read_at = None\<rparr>;
          w1 = w\<lparr>rows := rows w @ [n], next_id := Suc (next_id w),
                 writes := writes w @ [Insert (next_id w)]\<rparr>
      in case NotificationListSerializer_data n of
           Inl e \<Rightarrow> (w1, Inl e)
         | Inr d \<Rightarrow> (group_send (UserGroup (user_id rcp)) (NotificationMessageEvent d) w1, Inr n))"
  by (simp add: create_notification_def objects_create_def send_notification_to_user_def Let_def
           split: sum.splits)

lemma create_notification_rows:
  "rows (fst (create_notification now rcp sndr kind ttl msg obj dat w)) =
     rows w @ [\<lparr>nid = next_id w, recipient = rcp, sender = sndr, notification_type = kind,
               title = ttl, message = msg, content_object = obj,
               data = (case dat of None \<Rightarrow> [] | Some d \<Rightarrow> d),
               is_read = False, is_archived = False, created_at = now, read_at = None\<rparr>]"
  by (simp add: create_notification_unfold Let_def group_send_frame split: sum.splits)

lemma create_notification_returns:
  assumes "sndr \<noteq> None \<or> kind \<notin> {''follow'', ''like'', ''comment'', ''mention''}"
  shows "snd (create_notification now rcp sndr kind ttl msg obj dat w) =
     Inr \<lparr>nid = next_id w, recipient = rcp, sender = sndr, notification_type = kind,
               title = ttl, message = msg, content_object = obj,
               data = (case dat of None \<Rightarrow> [] | Some d \<Rightarrow> d),
               is_read = False, is_archived = False, created_at = now, read_at = None\<rparr>"
proof -
  let ?n = "\<lparr>nid = next_id w, recipient = rcp, sender = sndr, notification_type = kind,
               title = ttl, message = msg, content_object = obj,
               data = (case dat of None \<Rightarrow> [] | Some d \<Rightarrow> d),
               is_read = False, is_archived = False, created_at = now, read_at = None\<rparr>"
  from assms have "\<exists>t. get_notification_text ?n = Inr t"
    by (intro get_notification_text_defined) simp
  then obtain t where "get_notification_text ?n = Inr t" ..
  then show ?thesis
    by (simp add: create_notification_unfold Let_def serializer_defined)
qed

lemma send_notification_to_user_defined:
  assumes "get_notification_text n = Inr t"
  shows "send_notification_to_user uid n w =
     Inr (group_send (UserGroup uid) (NotificationMessageEvent (JDict ([(''id'', JInt (int (nid n)))] @
             (case sender n of None \<Rightarrow> [] | Some u \<Rightarrow> [(''sender_username'', JString (username u))]) @
             [(''notification_type'', JString (notification_type n)),
              (''title'', JString (title n)),
              (''message'', JString (message n)),
              (''notification_text'', JString t),
              (''is_read'', JBool (is_read n)),
              (''is_archived'', JBool (is_archived n)),
              (''created_at'', JInt (int (created_at n)))]))) w)"
  by (simp add: send_notification_to_user_def serializer_defined [OF assms])

lemma listed_rows:
  assumes "ordered_by_created_desc (NotificationListView_get_queryset u None None None w) result"
  shows "set result = {r \<in> set (rows w). same_user (recipient r) u}"
proof -
  from assms have "set result = set (NotificationListView_get_queryset u None None None w)"
    by (auto simp: ordered_by_created_desc_def dest: mset_eq_setD)
  then show ?thesis by (auto simp: NotificationListView_get_queryset_def)
qed

lemma create_notification_with_sender:
  "create_notification now rcp (Some s) kind ttl msg obj dat w = (w', r) \<Longrightarrow>
     \<exists>n. r = Inr n \<and> rows w' = rows w @ [n] \<and> recipient n = rcp \<and> notification_type n = kind
         \<and> sender n = Some s"
  using create_notification_rows [of now rcp "Some s" kind ttl msg obj dat w]
        create_notification_returns [of "Some s" kind now rcp ttl msg obj dat w]
  by auto

section \<open>Creation\<close>

text \<open>
  C1, as the code has it. \<open>create_notification\<close> does not look at the kind: for every
  kind string, in \<open>NOTIFICATION_TYPES\<close> or not, the call appends one unread, unarchived
  row with the next primary key, and no preference or quiet hour is read. The call returns
  that notification whenever a sender is given or the kind is none of follow, like,
  comment and mention.
\<close>

theorem create_notification_persists_every_kind:
  "rows (fst (create_notification now rcp sndr kind ttl msg obj dat w)) =
     rows w @ [\<lparr>nid = next_id w, recipient = rcp, sender = sndr, notification_type = kind,
               title = ttl, message = msg, content_object = obj,
               data = (case dat of None \<Rightarrow> [] | Some d \<Rightarrow> d),
               is_read = False, is_archived = False, created_at = now, read_at = None\<rparr>]
   \<and> (sndr \<noteq> None \<or> kind \<notin> {''follow'', ''like'', ''comment'', ''mention''} \<longrightarrow>
        snd (create_notification now rcp sndr kind ttl msg obj dat w) =
          Inr \<lparr>nid = next_id w, recipient = rcp, sender = sndr, notification_type = kind,
               title = ttl, message = msg, content_object = obj,
               data = (case dat of None \<Rightarrow> [] | Some d \<Rightarrow> d),
               is_read = False, is_archived = False, created_at = now, read_at = None\<rparr>)"
  using create_notification_rows create_notification_returns by blast

text \<open>
  The kind \<open>''bogus''\<close> is not one of the choices, and creating with it returns the
  notification and leaves it in the table.
\<close>

theorem create_unknown_kind_counterexample:
  "\<not> known_kind ''bogus''
   \<and> snd (create_notification 100 alice (Some bob) ''bogus'' ''T'' ''M'' None None empty_world) = Inr bogus_row
   \<and> rows (fst (create_notification 100 alice (Some bob) ''bogus'' ''T'' ''M'' None None empty_world)) = [bogus_row]
   \<and> rows empty_world = []"
  by (simp add: known_kind_def NOTIFICATION_TYPES_def create_notification_unfold Let_def
                NotificationListSerializer_data_def get_notification_text_def group_send_def
                empty_world_def bogus_row_def)

theorem create_notification_persists_every_kind_witness:
  "known_kind ''system''
   \<and> rows (fst (create_notification 100 alice None ''system'' ''T'' ''M'' None None empty_world)) =
       [bogus_row\<lparr>sender := None, notification_type := ''system''\<rparr>]
   \<and> snd (create_notification 100 alice None ''system'' ''T'' ''M'' None None empty_world) =
       Inr (bogus_row\<lparr>sender := None, notification_type := ''system''\<rparr>)"
  using create_notification_persists_every_kind
          [of 100 alice None "''system''" "''T''" "''M''" None None empty_world]
  by (simp add: known_kind_def NOTIFICATION_TYPES_def empty_world_def bogus_row_def)

section \<open>Marking as read\<close>

text \<open>
  C4. When \<open>mark_read\<close> finds the notification of the acting recipient, a second call
  returns the very state the first one left, write log included: it writes nothing. If
  the notification was unread before the first call, that call writes \<open>is_read\<close> and
  \<open>read_at\<close> once, and \<open>read_at\<close> is the time of the first call.
\<close>

theorem mark_read_idempotent:
  assumes "NotificationMarkAsReadView_post t1 u i w = Inr w1"
  shows "NotificationMarkAsReadView_post t2 u i w1 = Inr w1
         \<and> (\<forall>n. get_object_or_404 i u w = Inr n \<and> \<not> is_read n \<longrightarrow>
               (\<exists>n1. get_object_or_404 i u w1 = Inr n1 \<and> is_read n1 \<and> read_at n1 = Some t1
                     \<and> n1 = n\<lparr>is_read := True, read_at := Some t1\<rparr>)
               \<and> writes w1 = writes w @ [Update i [IsRead, ReadAt]])"
proof -
  from assms obtain n where n: "get_object_or_404 i u w = Inr n"
    by (auto simp: NotificationMarkAsReadView_post_def split: sum.splits)
  then have nid: "nid n = i" using get_object_or_404_found by blast
  show ?thesis
  proof (cases "is_read n")
    case True
    with assms n have "w1 = w"
      by (simp add: NotificationMarkAsReadView_post_def mark_as_read_def)
    with True n show ?thesis
      by (simp add: NotificationMarkAsReadView_post_def mark_as_read_def)
  next
    case False
    let ?f = "\<lambda>r. if nid r = i then r\<lparr>is_read := True, read_at := Some t1\<rparr> else r"
    from assms n False nid
    have w1: "w1 = w\<lparr>rows := map ?f (rows w), writes := writes w @ [Update i [IsRead, ReadAt]]\<rparr>"
      by (simp add: NotificationMarkAsReadView_post_def mark_as_read_def Let_def
                    save_read_fields cong: if_cong)
    have "get_object_or_404 i u w1 = map_sum id ?f (get_object_or_404 i u w)"
      unfolding w1 by (rule get_object_or_404_map) simp_all
    with n nid have n1: "get_object_or_404 i u w1 = Inr (n\<lparr>is_read := True, read_at := Some t1\<rparr>)"
      by simp
    then have "NotificationMarkAsReadView_post t2 u i w1 = Inr w1"
      by (simp add: NotificationMarkAsReadView_post_def mark_as_read_def)
    with n n1 w1 show ?thesis by simp
  qed
qed

theorem mark_read_idempotent_witness:
  "NotificationMarkAsReadView_post 200 alice 1 inbox_world =
     Inr (inbox_world\<lparr>rows := [like_row\<lparr>is_read := True, read_at := Some 200\<rparr>],
                      writes := [Insert 1, Update 1 [IsRead, ReadAt]]\<rparr>)
   \<and> NotificationMarkAsReadView_post 300 alice 1
        (inbox_world\<lparr>rows := [like_row\<lparr>is_read := True, read_at := Some 200\<rparr>],
                      writes := [Insert 1, Update 1 [IsRead, ReadAt]]\<rparr>) =
     Inr (inbox_world\<lparr>rows := [like_row\<lparr>is_read := True, read_at := Some 200\<rparr>],
                      writes := [Insert 1, Update 1 [IsRead, ReadAt]]\<rparr>)
   \<and> get_object_or_404 1 alice inbox_world = Inr like_row \<and> \<not> is_read like_row"
proof -
  have h: "NotificationMarkAsReadView_post 200 alice 1 inbox_world =
     Inr (inbox_world\<lparr>rows := [like_row\<lparr>is_read := True, read_at := Some 200\<rparr>],
                      writes := [Insert 1, Update 1 [IsRead, ReadAt]]\<rparr>)"
    by (simp add: NotificationMarkAsReadView_post_def get_object_or_404_def mark_as_read_def
                  Let_def save_update_fields_def inbox_world_def empty_world_def like_row_def
                  same_user_def alice_def)
  have g: "get_object_or_404 1 alice inbox_world = Inr like_row \<and> \<not> is_read like_row"
    by (simp add: get_object_or_404_def inbox_world_def empty_world_def like_row_def
                  same_user_def alice_def)
  from mark_read_idempotent [OF h, of 300] h g show ?thesis by simp
qed

text \<open>
  The bulk update of \<open>NotificationMarkAllAsReadView_post\<close> sets the column
  \<open>is_read\<close> only: the \<open>read_at\<close> column of every row is what it was.
\<close>

lemma mark_all_read_never_writes_read_at:
  "map read_at (rows (snd (NotificationMarkAllAsReadView_post u w))) = map read_at (rows w)"
  by (simp add: NotificationMarkAllAsReadView_post_def Let_def o_def cong: if_cong)

text \<open>
  C2 at a concrete table: one unread notification of alice. After
  \<open>mark_all_read\<close> the row is read and its \<open>read_at\<close> is still null, where the
  claim wants it set by every transition to read (as \<open>mark_as_read\<close> does).
\<close>

theorem mark_all_read_leaves_read_at_unset:
  "NotificationMarkAllAsReadView_post alice inbox_world =
     (1, inbox_world\<lparr>rows := [like_row\<lparr>is_read := True\<rparr>],
                     writes := [Insert 1, UpdateWhere 1 [IsRead]]\<rparr>)
   \<and> is_read (like_row\<lparr>is_read := True\<rparr>) \<and> read_at (like_row\<lparr>is_read := True\<rparr>) = None"
  by (simp add: NotificationMarkAllAsReadView_post_def Let_def inbox_world_def empty_world_def
                like_row_def same_user_def alice_def)

section \<open>Archiving\<close>

text \<open>
  C10. Archiving or unarchiving a notification the user owns logs one UPDATE of the
  column \<open>is_archived\<close> and leaves every row equal to what it was up to that flag.
  The unread count of the consumer and of the statistics is unchanged, for every user,
  and a row that is archived and unread makes both counts positive: they filter on
  \<open>is_read\<close> alone.
\<close>

theorem archive_writes_only_is_archived:
  assumes "NotificationArchiveView_post u i w = Inr w' \<or> NotificationUnarchiveView_post u i w = Inr w'"
  shows "map (\<lambda>r. r\<lparr>is_archived := False\<rparr>) (rows w') = map (\<lambda>r. r\<lparr>is_archived := False\<rparr>) (rows w)
         \<and> writes w' = writes w @ [Update i [IsArchived]]
         \<and> get_unread_count c w' = get_unread_count c w
         \<and> unread_count (NotificationStatsView_get v w') = unread_count (NotificationStatsView_get v w)
         \<and> (\<forall>n \<in> set (rows w'). is_archived n \<and> \<not> is_read n \<and> same_user (recipient n) v \<longrightarrow>
               0 < unread_count (NotificationStatsView_get v w')
               \<and> (\<forall>s. consumer_user s = AuthUser v \<longrightarrow> (\<exists>k > 0. get_unread_count s w' = Inr k)))"
proof -
  from archive_result [OF assms] obtain b where
    w': "w' = w\<lparr>rows := map (\<lambda>r. if nid r = i then r\<lparr>is_archived := b\<rparr> else r) (rows w),
                writes := writes w @ [Update i [IsArchived]]\<rparr>" by blast
  have frame: "map (\<lambda>r. r\<lparr>is_archived := False\<rparr>) (rows w') = map (\<lambda>r. r\<lparr>is_archived := False\<rparr>) (rows w)"
    unfolding w' by (induction "rows w") (simp_all add: o_def)
  have c1: "get_unread_count c w' = get_unread_count c w"
    unfolding w' by (rule unread_rows_map) simp_all
  have c2: "unread_count (NotificationStatsView_get v w') = unread_count (NotificationStatsView_get v w)"
    unfolding w' by (rule unread_rows_map) simp_all
  have c3: "\<forall>n \<in> set (rows w'). is_archived n \<and> \<not> is_read n \<and> same_user (recipient n) v \<longrightarrow>
               0 < unread_count (NotificationStatsView_get v w')
               \<and> (\<forall>s. consumer_user s = AuthUser v \<longrightarrow> (\<exists>k > 0. get_unread_count s w' = Inr k))"
    by (auto simp: NotificationStatsView_get_def get_unread_count_def filter_empty_conv
                   same_user_def)
  from frame c1 c2 c3 w' show ?thesis by simp
qed

theorem archive_writes_only_is_archived_witness:
  "NotificationArchiveView_post alice 1 inbox_world = Inr archived_world
   \<and> like_row\<lparr>is_archived := True\<rparr> \<in> set (rows archived_world)
   \<and> is_archived (like_row\<lparr>is_archived := True\<rparr>) \<and> \<not> is_read (like_row\<lparr>is_archived := True\<rparr>)
   \<and> same_user (recipient (like_row\<lparr>is_archived := True\<rparr>)) alice
   \<and> consumer_user alice_consumer = AuthUser alice
   \<and> unread_count (NotificationStatsView_get alice archived_world) = 1
   \<and> get_unread_count alice_consumer archived_world = Inr 1
   \<and> map is_read (rows archived_world) = [False] \<and> map read_at (rows archived_world) = [None]
   \<and> NotificationUnarchiveView_post alice 1 archived_world =
       Inr (inbox_world\<lparr>writes := [Insert 1, Update 1 [IsArchived], Update 1 [IsArchived]]\<rparr>)
   \<and> unread_count (NotificationStatsView_get alice
         (inbox_world\<lparr>writes := [Insert 1, Update 1 [IsArchived], Update 1 [IsArchived]]\<rparr>)) = 1"
proof -
  have h: "NotificationArchiveView_post alice 1 inbox_world = Inr archived_world"
    by (simp add: NotificationArchiveView_post_def get_object_or_404_def save_update_fields_def
                  archived_world_def inbox_world_def empty_world_def like_row_def same_user_def alice_def)
  have e: "like_row\<lparr>is_archived := True\<rparr> \<in> set (rows archived_world)"
    "is_archived (like_row\<lparr>is_archived := True\<rparr>)" "\<not> is_read (like_row\<lparr>is_archived := True\<rparr>)"
    "same_user (recipient (like_row\<lparr>is_archived := True\<rparr>)) alice"
    "consumer_user alice_consumer = AuthUser alice"
    by (simp_all add: archived_world_def like_row_def same_user_def alice_consumer_def)
  have v: "unread_count (NotificationStatsView_get alice inbox_world) = 1"
    "get_unread_count alice_consumer inbox_world = Inr 1"
    "map is_read (rows archived_world) = [False]" "map read_at (rows archived_world) = [None]"
    by (simp_all add: NotificationStatsView_get_def get_unread_count_def alice_consumer_def
                      archived_world_def inbox_world_def empty_world_def like_row_def same_user_def)
  have g: "NotificationUnarchiveView_post alice 1 archived_world =
       Inr (inbox_world\<lparr>writes := [Insert 1, Update 1 [IsArchived], Update 1 [IsArchived]]\<rparr>)"
    by (simp add: NotificationUnarchiveView_post_def get_object_or_404_def save_update_fields_def
                  archived_world_def inbox_world_def empty_world_def like_row_def same_user_def alice_def)
  from archive_writes_only_is_archived [OF disjI1 [OF h], of alice_consumer alice] h e v
  have 1: "unread_count (NotificationStatsView_get alice archived_world) = 1
           \<and> get_unread_count alice_consumer archived_world = Inr 1"
    by simp
  from archive_writes_only_is_archived [OF disjI2 [OF g], of alice_consumer alice] 1
  have 2: "unread_count (NotificationStatsView_get alice
         (inbox_world\<lparr>writes := [Insert 1, Update 1 [IsArchived], Update 1 [IsArchived]]\<rparr>)) = 1"
    by simp
  from h e v g 1 2 show ?thesis by simp
qed

section \<open>Dispatch\<close>

text \<open>
  What dispatch does when the text of the notification is defined, that is, when the
  notification has a sender or its kind is none of follow, like, comment and mention. The
  serializer gives the dictionary with the keys id, sender_username (when there is a
  sender), notification_type, title, message, notification_text, is_read, is_archived and
  created_at, with the values of the notification; it has no key data, recipient or
  sender. Dispatch to the recipient appends one notification frame with that dictionary
  to the socket of every channel in the recipient's group and to no other, and leaves the
  table and the groups as they are. With no channel in the group the state is unchanged,
  and a stored notification is in every listing of the recipient's notifications.
\<close>

lemma dispatch_pushes_projection:
  assumes "sender n \<noteq> None \<or> notification_type n \<notin> {''follow'', ''like'', ''comment'', ''mention''}"
  shows "\<exists>t proj w'.
      get_notification_text n = Inr t
    \<and> NotificationListSerializer_data n = Inr (JDict proj)
    \<and> map fst proj = [''id''] @ (if sender n = None then [] else [''sender_username'']) @
         [''notification_type'', ''title'', ''message'', ''notification_text'',
          ''is_read'', ''is_archived'', ''created_at'']
    \<and> map_of proj ''sender_username'' = map_option (\<lambda>u. JString (username u)) (sender n)
    \<and> map_of proj ''notification_type'' = Some (JString (notification_type n))
    \<and> map_of proj ''title'' = Some (JString (title n))
    \<and> map_of proj ''message'' = Some (JString (message n))
    \<and> map_of proj ''notification_text'' = Some (JString t)
    \<and> map_of proj ''is_read'' = Some (JBool (is_read n))
    \<and> map_of proj ''is_archived'' = Some (JBool (is_archived n))
    \<and> map_of proj ''created_at'' = Some (JInt (int (created_at n)))
    \<and> map_of proj ''data'' = None \<and> map_of proj ''recipient'' = None \<and> map_of proj ''sender'' = None
    \<and> send_notification_to_user (user_id (recipient n)) n w = Inr w'
    \<and> (\<forall>ch. sockets w' ch =
          (if ch \<in> groups w (UserGroup (user_id (recipient n)))
           then sockets w ch @ [JDict [(''type'', JString ''notification''), (''notification'', JDict proj)]]
           else sockets w ch))
    \<and> rows w' = rows w \<and> writes w' = writes w \<and> next_id w' = next_id w \<and> groups w' = groups w
    \<and> (groups w (UserGroup (user_id (recipient n))) = {} \<longrightarrow> w' = w)
    \<and> (n \<in> set (rows w) \<longrightarrow>
          (\<forall>result. ordered_by_created_desc
                      (NotificationListView_get_queryset (recipient n) None None None w') result
                    \<longrightarrow> n \<in> set result))"
proof -
  from get_notification_text_defined [OF assms] obtain t where t: "get_notification_text n = Inr t" ..
  let ?proj = "[(''id'', JInt (int (nid n)))] @
             (case sender n of None \<Rightarrow> [] | Some u \<Rightarrow> [(''sender_username'', JString (username u))]) @
             [(''notification_type'', JString (notification_type n)),
              (''title'', JString (title n)),
              (''message'', JString (message n)),
              (''notification_text'', JString t),
              (''is_read'', JBool (is_read n)),
              (''is_archived'', JBool (is_archived n)),
              (''created_at'', JInt (int (created_at n)))]"
  let ?w' = "group_send (UserGroup (user_id (recipient n))) (NotificationMessageEvent (JDict ?proj)) w"
  have ser: "NotificationListSerializer_data n = Inr (JDict ?proj)"
    using serializer_defined [OF t] .
  have keys: "map fst ?proj = [''id''] @ (if sender n = None then [] else [''sender_username'']) @
         [''notification_type'', ''title'', ''message'', ''notification_text'',
          ''is_read'', ''is_archived'', ''created_at'']"
    by (cases "sender n") simp_all
  have vals: "map_of ?proj ''sender_username'' = map_option (\<lambda>u. JString (username u)) (sender n)"
    "map_of ?proj ''notification_type'' = Some (JString (notification_type n))"
    "map_of ?proj ''title'' = Some (JString (title n))"
    "map_of ?proj ''message'' = Some (JString (message n))"
    "map_of ?proj ''notification_text'' = Some (JString t)"
    "map_of ?proj ''is_read'' = Some (JBool (is_read n))"
    "map_of ?proj ''is_archived'' = Some (JBool (is_archived n))"
    "map_of ?proj ''created_at'' = Some (JInt (int (created_at n)))"
    "map_of ?proj ''data'' = None" "map_of ?proj ''recipient'' = None" "map_of ?proj ''sender'' = None"
    by (cases "sender n"; simp)+
  have snd: "send_notification_to_user (user_id (recipient n)) n w = Inr ?w'"
    using send_notification_to_user_defined [OF t] .
  have push: "\<forall>ch. sockets ?w' ch =
          (if ch \<in> groups w (UserGroup (user_id (recipient n)))
           then sockets w ch @ [JDict [(''type'', JString ''notification''), (''notification'', JDict ?proj)]]
           else sockets w ch)"
    by (simp add: group_send_frame)
  have frame: "rows ?w' = rows w" "writes ?w' = writes w" "next_id ?w' = next_id w" "groups ?w' = groups w"
    by (simp_all add: group_send_frame)
  have nobody: "groups w (UserGroup (user_id (recipient n))) = {} \<longrightarrow> ?w' = w"
    by (simp add: group_send_nobody)
  have listed: "n \<in> set (rows w) \<longrightarrow>
          (\<forall>result. ordered_by_created_desc
                      (NotificationListView_get_queryset (recipient n) None None None ?w') result
                    \<longrightarrow> n \<in> set result)"
    by (auto simp: listed_rows group_send_frame same_user_def)
  from t ser keys vals snd push frame nobody listed show ?thesis by blast
qed

text \<open>
  The like notification of bob for alice: with two connections of alice open, each gets
  the frame and the connection of bob gets none; with none open, nothing changes.
\<close>

theorem dispatch_pushes_projection_example:
  "sender like_row \<noteq> None
   \<and> (\<exists>w'. send_notification_to_user (user_id (recipient like_row)) like_row
              (inbox_world\<lparr>groups := groups online_world\<rparr>) = Inr w'
          \<and> sockets w' ''chan.a1'' = [like_frame] \<and> sockets w' ''chan.a2'' = [like_frame]
          \<and> sockets w' ''chan.b1'' = [] \<and> rows w' = [like_row])
   \<and> groups inbox_world (UserGroup (user_id (recipient like_row))) = {}
   \<and> like_row \<in> set (rows inbox_world)
   \<and> send_notification_to_user (user_id (recipient like_row)) like_row inbox_world = Inr inbox_world
   \<and> ordered_by_created_desc (NotificationListView_get_queryset alice None None None inbox_world)
        [like_row]"
proof -
  have a: "sender like_row \<noteq> None" by (simp add: like_row_def)
  have b: "groups inbox_world (UserGroup (user_id (recipient like_row))) = {}"
    "like_row \<in> set (rows inbox_world)"
    by (simp_all add: inbox_world_def empty_world_def)
  from dispatch_pushes_projection [OF disjI1 [OF a], of inbox_world] b
  have c: "send_notification_to_user (user_id (recipient like_row)) like_row inbox_world = Inr inbox_world"
    by auto
  from dispatch_pushes_projection [OF disjI1 [OF a], of "inbox_world\<lparr>groups := groups online_world\<rparr>"]
  obtain t proj w' where
    p: "NotificationListSerializer_data like_row = Inr (JDict proj)"
    and s: "send_notification_to_user (user_id (recipient like_row)) like_row
              (inbox_world\<lparr>groups := groups online_world\<rparr>) = Inr w'"
    and f: "\<forall>ch. sockets w' ch =
          (if ch \<in> groups (inbox_world\<lparr>groups := groups online_world\<rparr>) (UserGroup (user_id (recipient like_row)))
           then sockets (inbox_world\<lparr>groups := groups online_world\<rparr>) ch
                  @ [JDict [(''type'', JString ''notification''), (''notification'', JDict proj)]]
           else sockets (inbox_world\<lparr>groups := groups online_world\<rparr>) ch)"
    and r: "rows w' = rows (inbox_world\<lparr>groups := groups online_world\<rparr>)"
    by blast
  from p have proj: "JDict [(''type'', JString ''notification''), (''notification'', JDict proj)] = like_frame"
    by (simp add: NotificationListSerializer_data_def get_notification_text_def sender_username_def
                  like_row_def like_frame_def bob_def)
  from f proj have
    "sockets w' ''chan.a1'' = [like_frame] \<and> sockets w' ''chan.a2'' = [like_frame]
     \<and> sockets w' ''chan.b1'' = []"
    by (simp add: inbox_world_def online_world_def empty_world_def like_row_def alice_def)
  moreover from r have "rows w' = [like_row]" by (simp add: inbox_world_def)
  moreover have "ordered_by_created_desc
                   (NotificationListView_get_queryset alice None None None inbox_world) [like_row]"
    by (simp add: ordered_by_created_desc_def NotificationListView_get_queryset_def
                  inbox_world_def like_row_def same_user_def alice_def)
  ultimately show ?thesis using a b c s by auto
qed


section \<open>Mentions\<close>

lemma mention_loop_skip:
  assumes "User_objects_get users name = Some u"
    and "same_user u (comment_author c) \<or> same_user u (post_author (comment_post c))"
  shows "mention_loop now users c (name # mentions) w = mention_loop now users c mentions w"
  using assms by auto

lemma mention_loop_rows:
  "mention_loop now users c mentions w = (w', r) \<Longrightarrow>
     r = Inr () \<and> (\<exists>new. rows w' = rows w @ new
        \<and> map recipient new = List.map_filter (\<lambda>name. case User_objects_get users name of
          None \<Rightarrow> None
        | Some u \<Rightarrow> if same_user u (comment_author c)
                        \<or> same_user u (post_author (comment_post c)) then None else Some u) mentions
        \<and> (\<forall>n \<in> set new. notification_type n = ''mention'' \<and> sender n = Some (comment_author c)))"
proof (induction mentions arbitrary: w)
  case Nil
  then show ?case by simp
next
  case (Cons name mentions)
  show ?case
  proof (cases "User_objects_get users name")
    case None
    with Cons show ?thesis by simp
  next
    case (Some u)
    show ?thesis
    proof (cases "same_user u (comment_author c) \<or> same_user u (post_author (comment_post c))")
      case True
      from Cons.prems have "mention_loop now users c mentions w = (w', r)"
        by (simp only: mention_loop_skip [OF Some True])
      from Cons.IH [OF this] Some True show ?thesis
        by simp
    next
      case False
      obtain w1 r1 where cr: "create_notification now u (Some (comment_author c))
                      ''mention'' ''Mentioned in Comment''
                      (username (comment_author c) @ '' mentioned you in a comment'')
                      (Some (''post'', post_id (comment_post c)))
                      (Some [(''post_id'', JInt (int (post_id (comment_post c)))),
                             (''comment_id'', JInt (int (comment_id c))),
                             (''comment_content'', JString (excerpt (comment_content c)))]) w = (w1, r1)"
        by (cases "create_notification now u (Some (comment_author c))
                      ''mention'' ''Mentioned in Comment''
                      (username (comment_author c) @ '' mentioned you in a comment'')
                      (Some (''post'', post_id (comment_post c)))
                      (Some [(''post_id'', JInt (int (post_id (comment_post c)))),
                             (''comment_id'', JInt (int (comment_id c))),
                             (''comment_content'', JString (excerpt (comment_content c)))]) w") blast
      from create_notification_with_sender [OF cr] obtain n where
        n: "r1 = Inr n" "rows w1 = rows w @ [n]" "recipient n = u" "notification_type n = ''mention''"
           "sender n = Some (comment_author c)" by blast
      from Cons.prems Some False cr n have rest: "mention_loop now users c mentions w1 = (w', r)"
        by simp
      from Cons.IH [OF rest] obtain new where
        new: "r = Inr ()" "rows w' = rows w1 @ new" "map recipient new = List.map_filter (\<lambda>name. case User_objects_get users name of
          None \<Rightarrow> None
        | Some u \<Rightarrow> if same_user u (comment_author c)
                        \<or> same_user u (post_author (comment_post c)) then None else Some u) mentions"
          "\<forall>n \<in> set new. notification_type n = ''mention'' \<and> sender n = Some (comment_author c)"
        by blast
      have "map recipient (n # new) = List.map_filter (\<lambda>name. case User_objects_get users name of
          None \<Rightarrow> None
        | Some u \<Rightarrow> if same_user u (comment_author c)
                        \<or> same_user u (post_author (comment_post c)) then None else Some u) (name # mentions)"
        using Some False n new by simp
      moreover have "rows w' = rows w @ (n # new)" using n new by simp
      moreover have "\<forall>m \<in> set (n # new). notification_type m = ''mention'' \<and> sender m = Some (comment_author c)"
        using n new by simp
      ultimately show ?thesis using new(1) by blast
    qed
  qed
qed







lemma mention_loop_all_suppressed:
  assumes "\<forall>name \<in> set mentions. \<forall>u. User_objects_get users name = Some u \<longrightarrow>
             same_user u (comment_author c) \<or> same_user u (post_author (comment_post c))"
  shows "mention_loop now users c mentions w = (w, Inr ())"
  using assms
proof (induction mentions)
  case Nil
  then show ?case by simp
next
  case (Cons name mentions)
  then show ?case
    by (cases "User_objects_get users name") auto
qed

lemma map_filter_member:
  "y \<in> set (List.map_filter g xs) \<Longrightarrow> \<exists>x \<in> set xs. g x = Some y"
  by (induction xs) (auto split: option.splits)






text \<open>
  A name with an accented letter after it is one longer match, which names nobody: the
  comment \<open>@bob\<close> followed by e-acute (code point 233) creates nothing.
\<close>

theorem accented_mention_example:
  "findall_mentions is_word_char (comment_content accent_comment) = [''bob'' @ [CHR 0xE9]]
   \<and> User_objects_get directory (''bob'' @ [CHR 0xE9]) = None
   \<and> create_mention_notifications is_word_char 100 directory accent_comment True empty_world
       = (empty_world, Inr ())"
  by (simp add: create_mention_notifications_def accent_comment_def is_word_char_def
                User_objects_get_def directory_def)

section \<open>Self-directed events\<close>

lemma mention_loop_new_recipients:
  assumes "mention_loop now users c mentions w = (w', r)"
  shows "\<exists>new. rows w' = rows w @ new
           \<and> (\<forall>n \<in> set new. \<not> same_user (recipient n) (comment_author c)
                               \<and> \<not> same_user (recipient n) (post_author (comment_post c)))"
proof -
  let ?g = "\<lambda>name. case User_objects_get users name of
          None \<Rightarrow> None
        | Some u \<Rightarrow> if same_user u (comment_author c)
                        \<or> same_user u (post_author (comment_post c)) then None else Some u"
  from mention_loop_rows [OF assms] obtain new where
    new: "rows w' = rows w @ new" "map recipient new = List.map_filter ?g mentions"
    by blast
  have "\<not> same_user (recipient n) (comment_author c)
        \<and> \<not> same_user (recipient n) (post_author (comment_post c))" if "n \<in> set new" for n
  proof -
    from that have "recipient n \<in> set (map recipient new)" by simp
    then have "recipient n \<in> set (List.map_filter ?g mentions)" by (simp only: new(2))
    from map_filter_member [OF this] obtain name where "?g name = Some (recipient n)" by blast
    then show ?thesis by (cases "User_objects_get users name") (auto split: if_splits)
  qed
  with new(1) show ?thesis by blast
qed

text \<open>
  C9. A like by the author of the post and a comment by the author of the post leave the
  state as it is in their receivers, and so does the mention receiver when every match
  that names an active user names the author of the comment. In every case no row the
  mention receiver appends has the author of the comment as recipient.
\<close>

theorem self_directed_events_create_nothing:
  "(same_user (like_user l) (post_author (like_post l)) \<longrightarrow>
      create_like_notification now l created w = (w, Inr ()))
   \<and> (same_user (comment_author c) (post_author (comment_post c)) \<longrightarrow>
      create_comment_notification now c created w = (w, Inr ()))
   \<and> ((\<forall>name \<in> set (findall_mentions word (comment_content c)).
          \<forall>u. User_objects_get users name = Some u \<longrightarrow> same_user u (comment_author c)) \<longrightarrow>
      create_mention_notifications word now users c created w = (w, Inr ()))
   \<and> (\<exists>new. rows (fst (create_mention_notifications word now users c created w)) = rows w @ new
         \<and> (\<forall>n \<in> set new. \<not> same_user (recipient n) (comment_author c)))"
proof (intro conjI impI)
  assume "same_user (like_user l) (post_author (like_post l))"
  then show "create_like_notification now l created w = (w, Inr ())"
    by (simp add: create_like_notification_def)
next
  assume "same_user (comment_author c) (post_author (comment_post c))"
  then show "create_comment_notification now c created w = (w, Inr ())"
    by (simp add: create_comment_notification_def)
next
  assume a: "\<forall>name \<in> set (findall_mentions word (comment_content c)).
          \<forall>u. User_objects_get users name = Some u \<longrightarrow> same_user u (comment_author c)"
  then have "\<forall>name \<in> set (findall_mentions word (comment_content c)).
          \<forall>u. User_objects_get users name = Some u \<longrightarrow>
             same_user u (comment_author c) \<or> same_user u (post_author (comment_post c))"
    by blast
  from mention_loop_all_suppressed [OF this]
  show "create_mention_notifications word now users c created w = (w, Inr ())"
    by (simp only: create_mention_notifications_def if_cancel)
next
  show "\<exists>new. rows (fst (create_mention_notifications word now users c created w)) = rows w @ new
         \<and> (\<forall>n \<in> set new. \<not> same_user (recipient n) (comment_author c))"
  proof (cases created)
    case False
    then show ?thesis by (simp add: create_mention_notifications_def)
  next
    case True
    obtain w' r where res: "mention_loop now users c (findall_mentions word (comment_content c)) w = (w', r)"
      by (cases "mention_loop now users c (findall_mentions word (comment_content c)) w") blast
    from mention_loop_new_recipients [OF res] obtain new where
      "rows w' = rows w @ new" "\<forall>n \<in> set new. \<not> same_user (recipient n) (comment_author c)"
      by blast
    with res True show ?thesis
      by (simp add: create_mention_notifications_def)
  qed
qed

theorem self_directed_events_create_nothing_witness:
  "same_user (like_user own_like) (post_author (like_post own_like))
   \<and> create_like_notification 100 own_like True inbox_world = (inbox_world, Inr ())
   \<and> same_user (comment_author own_comment) (post_author (comment_post own_comment))
   \<and> create_comment_notification 100 own_comment True inbox_world = (inbox_world, Inr ())
   \<and> findall_mentions is_word_char (comment_content own_comment) = [''carol'']
   \<and> User_objects_get directory ''carol'' = Some carol
   \<and> same_user carol (comment_author own_comment)
   \<and> create_mention_notifications is_word_char 100 directory own_comment True inbox_world = (inbox_world, Inr ())
   \<and> length (rows inbox_world) = 1"
proof -
  have a: "same_user (like_user own_like) (post_author (like_post own_like))"
    and b: "same_user (comment_author own_comment) (post_author (comment_post own_comment))"
    and c: "same_user carol (comment_author own_comment)"
    by (simp_all add: own_like_def own_comment_def carol_post_def same_user_def)
  have m: "findall_mentions is_word_char (comment_content own_comment) = [''carol'']"
    by (simp add: own_comment_def is_word_char_def)
  have g: "User_objects_get directory ''carol'' = Some carol"
    by (simp add: User_objects_get_def directory_def carol_def)
  have h: "\<forall>name \<in> set (findall_mentions is_word_char (comment_content own_comment)).
          \<forall>u. User_objects_get directory name = Some u \<longrightarrow> same_user u (comment_author own_comment)"
    using c by (simp add: m g)
  have n: "length (rows inbox_world) = 1" by (simp add: inbox_world_def)
  note t = self_directed_events_create_nothing
             [where l = own_like and now = 100 and created = True and w = inbox_world
                and c = own_comment and users = directory and word = is_word_char]
  from t a have 1: "create_like_notification 100 own_like True inbox_world = (inbox_world, Inr ())"
    by blast
  from t b have 2: "create_comment_notification 100 own_comment True inbox_world = (inbox_world, Inr ())"
    by blast
  from t h have 3: "create_mention_notifications is_word_char 100 directory own_comment True inbox_world = (inbox_world, Inr ())"
    by blast
  from a b c m g n 1 2 3 show ?thesis by blast
qed

section \<open>The connection\<close>

lemma send_frame:
  "sockets (send self f w) ch = (if ch = channel_name self then sockets w ch @ [f] else sockets w ch)"
  "rows (send self f w) = rows w" "groups (send self f w) = groups w"
  "writes (send self f w) = writes w" "next_id (send self f w) = next_id w"
  by (simp_all add: send_def)

lemma receive_cases:
  "loads t = None \<Longrightarrow>
     receive loads self t w =
       Inr (send self (JDict [(''type'', JString ''error''),
                              (''message'', JString ''Invalid JSON format'')]) w)"
  "loads t = Some (JDict kv) \<Longrightarrow> dict_get kv ''type'' = JString ''ping'' \<Longrightarrow>
     receive loads self t w =
       Inr (send self (JDict [(''type'', JString ''pong''),
                              (''timestamp'', dict_get kv ''timestamp'')]) w)"
  "loads t = Some (JDict kv) \<Longrightarrow> dict_get kv ''type'' = JString ''get_notifications'' \<Longrightarrow>
     consumer_user self = AuthUser u \<Longrightarrow>
     receive loads self t w =
       Inr (send self (JDict [(''type'', JString ''notifications_count''),
              (''unread_count'',
               JInt (int (length (filter (\<lambda>r. same_user (recipient r) u \<and> \<not> is_read r) (rows w)))))]) w)"
  "loads t = Some (JDict kv) \<Longrightarrow> dict_get kv ''type'' \<noteq> JString ''ping'' \<Longrightarrow>
     dict_get kv ''type'' \<noteq> JString ''get_notifications'' \<Longrightarrow>
     receive loads self t w = Inr w"
  "loads t = Some j \<Longrightarrow> (\<forall>kv. j \<noteq> JDict kv) \<Longrightarrow> receive loads self t w = Inl AttributeError"
  by (auto simp: receive_def get_unread_count_def Let_def split: json.splits)

lemma handle_frames:
  assumes "handle loads self x w = Inr w1"
  shows "\<exists>later. sockets w1 (channel_name self) = sockets w (channel_name self) @ later
           \<and> (\<forall>f \<in> set later. frame_type f \<noteq> JString ''connection_established'')
           \<and> groups w1 = groups w"
proof (cases x)
  case (ClientText t)
  with assms have r: "receive loads self t w = Inr w1" by simp
  then show ?thesis
    by (auto simp: receive_def Let_def send_frame frame_type_def dict_get_def
             split: option.splits json.splits if_splits sum.splits)
next
  case (LayerEvent ev)
  with assms show ?thesis
    by (cases ev)
       (auto simp: notification_message_def notification_update_def send_frame frame_type_def
                   dict_get_def)
qed

lemma run_frames:
  "run loads self events w = Inr w' \<Longrightarrow>
     \<exists>later. sockets w' (channel_name self) = sockets w (channel_name self) @ later
        \<and> (\<forall>f \<in> set later. frame_type f \<noteq> JString ''connection_established'')
        \<and> groups w' = groups w"
proof (induction events arbitrary: w)
  case Nil
  then show ?case by simp
next
  case (Cons x events)
  from Cons.prems obtain w1 where h: "handle loads self x w = Inr w1"
    and r: "run loads self events w1 = Inr w'"
    by (auto split: sum.splits)
  from handle_frames [OF h] obtain l1 where
    l1: "sockets w1 (channel_name self) = sockets w (channel_name self) @ l1"
        "\<forall>f \<in> set l1. frame_type f \<noteq> JString ''connection_established''" "groups w1 = groups w"
    by blast
  from Cons.IH [OF r] obtain l2 where
    l2: "sockets w' (channel_name self) = sockets w1 (channel_name self) @ l2"
        "\<forall>f \<in> set l2. frame_type f \<noteq> JString ''connection_established''" "groups w' = groups w1"
    by blast
  have "sockets w' (channel_name self) = sockets w (channel_name self) @ (l1 @ l2)"
    using l1 l2 by simp
  moreover have "\<forall>f \<in> set (l1 @ l2). frame_type f \<noteq> JString ''connection_established''"
    using l1 l2 by auto
  moreover have "groups w' = groups w" using l1 l2 by simp
  ultimately show ?case by blast
qed

lemma connect_anonymous:
  "consumer_user self = AnonymousUser \<Longrightarrow> connect self w = (self\<lparr>conn_state := Closed\<rparr>, w)"
  by (simp add: connect_def)

lemma connect_authenticated:
  "consumer_user self = AuthUser u \<Longrightarrow>
     connect self w =
       (self\<lparr>user_group_name := Some (UserGroup (user_id u)), conn_state := Open\<rparr>,
        send self (established u) (group_add (UserGroup (user_id u)) (channel_name self) w))"
  by (simp add: connect_def Let_def established_def send_def)

lemma established_frame:
  "frame_type (established u) = JString ''connection_established''"
  "established u = JDict kv \<Longrightarrow> dict_get kv ''user_id'' = JInt (int (user_id u))"
  by (auto simp: established_def frame_type_def dict_get_def)

text \<open>
  C7. With an anonymous user \<open>connect\<close> closes the connection and leaves the groups
  and every socket as they are: the connection is never accepted, joins no group and gets
  no frame. With an authenticated user the connection is open, its channel is in the
  group of the user, and the acknowledgement frame with the user's id is appended to its
  socket; whatever the consumer handles afterwards, the frames that follow on its socket
  are not of type connection_established, for every parser \<open>loads\<close>.
\<close>

theorem connect_lifecycle:
  "frame_type (established u) = JString ''connection_established''
   \<and> (consumer_user self = AnonymousUser \<longrightarrow>
      connect self w = (self\<lparr>conn_state := Closed\<rparr>, w))
   \<and> (consumer_user self = AuthUser u \<longrightarrow>
      conn_state (fst (connect self w)) = Open
      \<and> channel_name (fst (connect self w)) = channel_name self
      \<and> groups (snd (connect self w)) (UserGroup (user_id u))
           = insert (channel_name self) (groups w (UserGroup (user_id u)))
      \<and> sockets (snd (connect self w)) (channel_name self)
           = sockets w (channel_name self) @ [established u]
      \<and> (\<forall>events w'. run loads (fst (connect self w)) events (snd (connect self w)) = Inr w' \<longrightarrow>
            (\<exists>later. sockets w' (channel_name self)
                        = sockets w (channel_name self) @ [established u] @ later
               \<and> (\<forall>f \<in> set later. frame_type f \<noteq> JString ''connection_established''))))"
proof (intro conjI impI allI)
  show "frame_type (established u) = JString ''connection_established''"
    by (rule established_frame)
next
  assume "consumer_user self = AnonymousUser"
  then show "connect self w = (self\<lparr>conn_state := Closed\<rparr>, w)" by (rule connect_anonymous)
next
  assume u: "consumer_user self = AuthUser u"
  show "conn_state (fst (connect self w)) = Open"
    and "channel_name (fst (connect self w)) = channel_name self"
    and "groups (snd (connect self w)) (UserGroup (user_id u))
           = insert (channel_name self) (groups w (UserGroup (user_id u)))"
    and "sockets (snd (connect self w)) (channel_name self)
           = sockets w (channel_name self) @ [established u]"
    by (simp_all add: connect_authenticated [OF u] send_frame group_add_def)
next
  fix events w'
  assume u: "consumer_user self = AuthUser u"
    and r: "run loads (fst (connect self w)) events (snd (connect self w)) = Inr w'"
  have ch: "channel_name (fst (connect self w)) = channel_name self"
    by (simp add: connect_authenticated [OF u])
  have s: "sockets (snd (connect self w)) (channel_name self)
           = sockets w (channel_name self) @ [established u]"
    by (simp add: connect_authenticated [OF u] send_frame group_add_def)
  from run_frames [OF r] s ch
  show "\<exists>later. sockets w' (channel_name self)
                        = sockets w (channel_name self) @ [established u] @ later
               \<and> (\<forall>f \<in> set later. frame_type f \<noteq> JString ''connection_established'')"
    by auto
qed

theorem connect_lifecycle_witness:
  "consumer_user anon_consumer = AnonymousUser
   \<and> connect anon_consumer online_world = (anon_consumer\<lparr>conn_state := Closed\<rparr>, online_world)
   \<and> consumer_user alice_consumer = AuthUser alice
   \<and> conn_state (fst (connect alice_consumer inbox_world)) = Open
   \<and> groups (snd (connect alice_consumer inbox_world)) (UserGroup 1) = {''chan.a1''}
   \<and> (\<exists>w'. run example_loads (fst (connect alice_consumer inbox_world)) session
               (snd (connect alice_consumer inbox_world)) = Inr w'
          \<and> sockets w' ''chan.a1'' =
              [established alice,
               JDict [(''type'', JString ''pong''), (''timestamp'', JInt 7)],
               JDict [(''type'', JString ''notification''), (''notification'', JDict [(''id'', JInt 1)])],
               JDict [(''type'', JString ''notifications_count''), (''unread_count'', JInt 1)],
               JDict [(''type'', JString ''error''), (''message'', JString ''Invalid JSON format'')]])"
proof -
  have a: "consumer_user anon_consumer = AnonymousUser" by (simp add: anon_consumer_def)
  have b: "consumer_user alice_consumer = AuthUser alice" by (simp add: alice_consumer_def)
  have r: "\<exists>w'. run example_loads (fst (connect alice_consumer inbox_world)) session
               (snd (connect alice_consumer inbox_world)) = Inr w'
          \<and> sockets w' ''chan.a1'' =
              [established alice,
               JDict [(''type'', JString ''pong''), (''timestamp'', JInt 7)],
               JDict [(''type'', JString ''notification''), (''notification'', JDict [(''id'', JInt 1)])],
               JDict [(''type'', JString ''notifications_count''), (''unread_count'', JInt 1)],
               JDict [(''type'', JString ''error''), (''message'', JString ''Invalid JSON format'')]]"
    by (simp add: session_def connect_def Let_def established_def receive_def example_loads_def
                  dict_get_def get_unread_count_def notification_message_def send_def group_add_def
                  alice_consumer_def inbox_world_def empty_world_def like_row_def same_user_def
                  alice_def)
  have g: "groups inbox_world (UserGroup (user_id alice)) = {}" "user_id alice = 1"
          "channel_name alice_consumer = ''chan.a1''"
    by (simp_all add: inbox_world_def empty_world_def alice_def alice_consumer_def)
  from connect_lifecycle [of alice anon_consumer online_world example_loads] a
  have 1: "connect anon_consumer online_world = (anon_consumer\<lparr>conn_state := Closed\<rparr>, online_world)"
    by blast
  from connect_lifecycle [of alice alice_consumer inbox_world example_loads] b g
  have 2: "conn_state (fst (connect alice_consumer inbox_world)) = Open
     \<and> groups (snd (connect alice_consumer inbox_world)) (UserGroup 1) = {''chan.a1''}"
    by simp
  from a b r 1 2 show ?thesis by blast
qed

text \<open>
  C8 at the payload \<^verbatim>\<open>5\<close>: it parses (to a number), so no
  \<^verbatim>\<open>JSONDecodeError\<close> is raised, and \<^verbatim>\<open>.get\<close> on the number raises
  \<^verbatim>\<open>AttributeError\<close>, which the handler does not catch: no error frame, and not
  ignored. The other cases of the claim are the first four statements of
  \<open>receive_cases\<close>: an error frame for text that does not parse, and for a parsed
  object a pong with the timestamp of the request, the unread count of the user, or
  nothing.
\<close>

theorem receive_non_object_raises:
  "example_loads ''5'' = Some (JInt 5)
   \<and> conn_state (fst (connect alice_consumer inbox_world)) = Open
   \<and> receive example_loads (fst (connect alice_consumer inbox_world)) ''5''
        (snd (connect alice_consumer inbox_world)) = Inl AttributeError"
  by (simp add: receive_def example_loads_def connect_def Let_def alice_consumer_def)

end
